theory Spec2Isabelle
  imports Complex_Main
begin

section \<open>Python strings and the builtins the integration relies on\<close>

text \<open>
  A Python \<open>str\<close> is a sequence of Unicode code points, so it is modelled as a list
  of code points. \<open>str\<close> turns an ASCII literal into such a list.
\<close>

type_synonym pystr = "nat list"

definition str :: "string \<Rightarrow> pystr" where
  "str s = map of_char s"

text \<open>
  A Python \<open>float\<close> is either a number, an infinity (the flag says negative) or
  \<open>nan\<close>. A number is carried as the value that the decimal text denotes; the
  rounding of that value to binary64, which \<open>float()\<close> applies, is not modelled.
\<close>

datatype pyfloat = Fin rat | Inf bool | NaN

fun fneg :: "pyfloat \<Rightarrow> pyfloat" where
  "fneg (Fin r) = Fin (- r)"
| "fneg (Inf b) = Inf (\<not> b)"
| "fneg NaN = NaN"

text \<open>
  What \<open>response.json()\<close> yields: the values of the \<open>json\<close> module. A
  \<open>dict\<close> is an association list from its (distinct) string keys.
\<close>

datatype json =
    JNull
  | JBool bool
  | JInt int
  | JFloat pyfloat
  | JStr pystr
  | JArr "json list"
  | JObj "(pystr \<times> json) list"

text \<open>The exceptions that the modelled code can raise or let through.\<close>

datatype perr_msg =
    HttpError int
  | ApiError json
  | NoData
  | MissingScreenData
  | ParseKeyError
  | ParseIndexError

datatype exn =
    ValueError
  | IndexError
  | KeyError
  | ZeroDivisionError
  | AttributeError
  | TypeError
  | OtherException pystr
  | TokenExpiredError
  | PortfolioNotFoundError int
  | PortfolioError perr_msg

text \<open>
  \<open>str.isspace\<close> for one code point: the characters that \<open>str.strip()\<close>,
  \<open>int()\<close> and \<open>float()\<close> remove at both ends.
\<close>

definition py_isspace :: "nat \<Rightarrow> bool" where
  "py_isspace c \<longleftrightarrow>
     (9 \<le> c \<and> c \<le> 13) \<or> (28 \<le> c \<and> c \<le> 32) \<or> c = 133 \<or> c = 160 \<or> c = 5760 \<or>
     (8192 \<le> c \<and> c \<le> 8202) \<or> c = 8232 \<or> c = 8233 \<or> c = 8239 \<or> c = 8287 \<or> c = 12288"

definition lstrip_by :: "(nat \<Rightarrow> bool) \<Rightarrow> pystr \<Rightarrow> pystr" where
  "lstrip_by p s = dropWhile p s"

definition rstrip_by :: "(nat \<Rightarrow> bool) \<Rightarrow> pystr \<Rightarrow> pystr" where
  "rstrip_by p s = rev (dropWhile p (rev s))"

definition py_strip :: "pystr \<Rightarrow> pystr" where
  "py_strip s = rstrip_by py_isspace (lstrip_by py_isspace s)"

text \<open>\<open>s.split(sep)\<close> for a one-character separator: always at least one part.\<close>

fun py_split :: "nat \<Rightarrow> pystr \<Rightarrow> pystr list" where
  "py_split sep [] = [[]]"
| "py_split sep (c # cs) =
     (if c = sep then [] # py_split sep cs
      else (case py_split sep cs of p # ps \<Rightarrow> (c # p) # ps | [] \<Rightarrow> [[c]]))"

text \<open>
  Decimal digits. Only the ASCII digits are recognised here; Python also accepts the
  other characters of Unicode category Nd, which this model treats as non-digits.
\<close>

definition is_digit :: "nat \<Rightarrow> bool" where
  "is_digit c \<longleftrightarrow> 48 \<le> c \<and> c \<le> 57"

text \<open>
  \<open>digitpart ::= digit (["_"] digit)*\<close>: the digits of a numeral in which single
  underscores may separate digits. \<open>digits_after\<close> reads what follows a digit.
\<close>

fun digits_after :: "pystr \<Rightarrow> nat list option" where
  "digits_after [] = Some []"
| "digits_after [c] = (if is_digit c then Some [c - 48] else None)"
| "digits_after (c # d # ds) =
     (if is_digit c then map_option ((#) (c - 48)) (digits_after (d # ds))
      else if c = 95 \<and> is_digit d then map_option ((#) (d - 48)) (digits_after ds)
      else None)"

fun digitpart :: "pystr \<Rightarrow> nat list option" where
  "digitpart [] = None"
| "digitpart (c # cs) =
     (if is_digit c then map_option ((#) (c - 48)) (digits_after cs) else None)"

definition decimal :: "nat list \<Rightarrow> nat" where
  "decimal ds = foldl (\<lambda>a d. 10 * a + d) 0 ds"

text \<open>
  \<open>int(s)\<close> in base 10: surrounding whitespace is removed, one sign is allowed, and
  the rest must be a digitpart; anything else raises \<open>ValueError\<close>.
\<close>

definition py_int :: "pystr \<Rightarrow> exn + int" where
  "py_int s =
     (let t = py_strip s;
          neg = (case t of c # _ \<Rightarrow> c = 45 | [] \<Rightarrow> False);
          body = (case t of c # cs \<Rightarrow> if c = 43 \<or> c = 45 then cs else t | [] \<Rightarrow> t)
      in case digitpart body of
           None \<Rightarrow> Inl ValueError
         | Some ds \<Rightarrow> Inr (if neg then - int (decimal ds) else int (decimal ds)))"

section \<open>Time parsing and the update schedule\<close>

text \<open>
  \<open>parse_time\<close>: \<open>parts = time_str.split(":")\<close>, then
  \<open>int(parts[0]), int(parts[1])\<close>, evaluated left to right.
\<close>

definition parse_time :: "pystr \<Rightarrow> exn + (int \<times> int)" where
  "parse_time time_str =
     (case py_split 58 time_str of
        [] \<Rightarrow> Inl IndexError
      | p0 # rest \<Rightarrow>
          (case py_int p0 of
             Inl e \<Rightarrow> Inl e
           | Inr h \<Rightarrow>
               (case rest of
                  [] \<Rightarrow> Inl IndexError
                | p1 # _ \<Rightarrow>
                    (case py_int p1 of
                       Inl e \<Rightarrow> Inl e
                     | Inr m \<Rightarrow> Inr (h, m)))))"

text \<open>The fields of \<open>datetime.now()\<close> that the coordinator reads.\<close>

record datetime =
  weekday :: int
  hour :: int
  minute :: int

text \<open>
  The snapshot that \<open>_fetch_data\<close> builds (\<open>parsed_data\<close>). It is a dict with
  eight keys, so a stored snapshot is always truthy.
\<close>

record snapshot =
  snap_portfolio_name :: pystr
  snap_market_value :: pyfloat
  snap_open_pl :: pyfloat
  snap_open_pl_perc :: pyfloat
  snap_daily_pl :: pyfloat
  snap_daily_pl_perc :: pyfloat
  snap_timestamp :: pystr
  snap_raw_data :: json

text \<open>
  The fields of \<open>InvestingDataCoordinator\<close>. (\<open>normalized_name\<close> and the
  session only feed the notification id and the transport, and are left out.)
\<close>

record coordinator =
  x_token :: pystr
  x_udid :: pystr
  portfolio_id :: int
  portfolio_name :: pystr
  last_successful_data :: "snapshot option"
  last_update_minute :: int
  error_notified :: bool
  update_weekday_interval :: int
  update_weekday_start :: int
  update_weekday_end :: int
  update_night_time :: pystr
  update_morning_time :: pystr

definition DEFAULT_UPDATE_WEEKDAY_INTERVAL :: int where
  "DEFAULT_UPDATE_WEEKDAY_INTERVAL = 15"

definition DEFAULT_UPDATE_WEEKDAY_START :: int where
  "DEFAULT_UPDATE_WEEKDAY_START = 9"

definition DEFAULT_UPDATE_WEEKDAY_END :: int where
  "DEFAULT_UPDATE_WEEKDAY_END = 21"

definition DEFAULT_UPDATE_NIGHT_TIME :: pystr where
  "DEFAULT_UPDATE_NIGHT_TIME = str ''22:05''"

definition DEFAULT_UPDATE_MORNING_TIME :: pystr where
  "DEFAULT_UPDATE_MORNING_TIME = str ''04:00''"

text \<open>The \<open>options\<close> dict of a config entry: each key may be absent.\<close>

record options =
  opt_weekday_interval :: "int option"
  opt_weekday_start :: "int option"
  opt_weekday_end :: "int option"
  opt_night_time :: "pystr option"
  opt_morning_time :: "pystr option"

definition no_options :: options where
  "no_options = \<lparr>opt_weekday_interval = None, opt_weekday_start = None,
     opt_weekday_end = None, opt_night_time = None, opt_morning_time = None\<rparr>"

definition get_or :: "'a option \<Rightarrow> 'a \<Rightarrow> 'a" where
  "get_or v d = (case v of Some x \<Rightarrow> x | None \<Rightarrow> d)"

text \<open>\<open>InvestingDataCoordinator.__init__\<close>.\<close>

definition init_coordinator ::
  "pystr \<Rightarrow> pystr \<Rightarrow> int \<Rightarrow> pystr \<Rightarrow> options \<Rightarrow> coordinator" where
  "init_coordinator tok udid pid name opts =
     \<lparr>x_token = tok, x_udid = udid, portfolio_id = pid, portfolio_name = name,
      last_successful_data = None, last_update_minute = - 1, error_notified = False,
      update_weekday_interval = get_or (opt_weekday_interval opts) DEFAULT_UPDATE_WEEKDAY_INTERVAL,
      update_weekday_start = get_or (opt_weekday_start opts) DEFAULT_UPDATE_WEEKDAY_START,
      update_weekday_end = get_or (opt_weekday_end opts) DEFAULT_UPDATE_WEEKDAY_END,
      update_night_time = get_or (opt_night_time opts) DEFAULT_UPDATE_NIGHT_TIME,
      update_morning_time = get_or (opt_morning_time opts) DEFAULT_UPDATE_MORNING_TIME\<rparr>"

text \<open>
  \<open>should_update_now\<close>, with the instant that \<open>datetime.now()\<close> returns as an
  argument. Both configured times are parsed before anything is compared, and
  \<open>minute % interval\<close> raises \<open>ZeroDivisionError\<close> for a zero interval. Python's
  \<open>%\<close> on integers takes the sign of the divisor, as \<open>mod\<close> on \<open>int\<close> does.
\<close>

definition should_update_now :: "coordinator \<Rightarrow> datetime \<Rightarrow> exn + (bool \<times> int)" where
  "should_update_now c now =
     (case parse_time (update_morning_time c) of
        Inl e \<Rightarrow> Inl e
      | Inr (morning_hour, morning_minute) \<Rightarrow>
          (case parse_time (update_night_time c) of
             Inl e \<Rightarrow> Inl e
           | Inr (night_hour, night_minute) \<Rightarrow>
               if hour now = morning_hour \<and> minute now = morning_minute then Inr (True, 60)
               else if hour now = night_hour \<and> minute now = night_minute then Inr (True, 60)
               else if weekday now < 5 \<and> update_weekday_start c \<le> hour now
                       \<and> hour now < update_weekday_end c
               then (if update_weekday_interval c = 0 then Inl ZeroDivisionError
                     else if minute now mod update_weekday_interval c = 0 then Inr (True, 60)
                     else Inr (False, 60))
               else Inr (False, 60)))"

section \<open>The locale number parser\<close>

text \<open>
  \<open>float(s)\<close> on a string, after the language reference:
  \<^verbatim>\<open>floatvalue ::= [sign] (floatnumber | "inf" | "infinity" | "nan")\<close>,
  \<^verbatim>\<open>floatnumber ::= number [exponent]\<close>,
  \<^verbatim>\<open>number ::= [digitpart] "." digitpart | digitpart ["."]\<close>,
  \<^verbatim>\<open>exponent ::= ("e" | "E") [sign] digitpart\<close>,
  with surrounding whitespace removed and the words matched without regard to case.
  Text outside this grammar raises \<open>ValueError\<close>.
\<close>

definition to_lower :: "nat \<Rightarrow> nat" where
  "to_lower c = (if 65 \<le> c \<and> c \<le> 90 then c + 32 else c)"

definition split_sign :: "pystr \<Rightarrow> bool \<times> pystr" where
  "split_sign t =
     (case t of
        [] \<Rightarrow> (False, [])
      | c # cs \<Rightarrow> if c = 45 then (True, cs) else if c = 43 then (False, cs) else (False, t))"

definition number_part :: "pystr \<Rightarrow> (nat list \<times> nat list) option" where
  "number_part m =
     (let ip = takeWhile (\<lambda>c. c \<noteq> 46) m; r = dropWhile (\<lambda>c. c \<noteq> 46) m
      in case r of
           [] \<Rightarrow> map_option (\<lambda>d. (d, [])) (digitpart ip)
         | _ # fp \<Rightarrow>
             if ip = [] then map_option (\<lambda>d. ([], d)) (digitpart fp)
             else if fp = [] then map_option (\<lambda>d. (d, [])) (digitpart ip)
             else (case digitpart ip of
                     None \<Rightarrow> None
                   | Some a \<Rightarrow> map_option (\<lambda>b. (a, b)) (digitpart fp)))"

definition exponent_part :: "pystr \<Rightarrow> int option" where
  "exponent_part r =
     (case r of
        [] \<Rightarrow> Some 0
      | _ # x \<Rightarrow>
          (case split_sign x of
             (neg, d) \<Rightarrow>
               map_option (\<lambda>ds. if neg then - int (decimal ds) else int (decimal ds))
                 (digitpart d)))"

definition scale10 :: "rat \<Rightarrow> int \<Rightarrow> rat" where
  "scale10 x k = (if 0 \<le> k then x * 10 ^ nat k else x / 10 ^ nat (- k))"

definition py_float :: "pystr \<Rightarrow> exn + pyfloat" where
  "py_float s =
     (case split_sign (py_strip s) of
        (neg, body) \<Rightarrow>
          if map to_lower body = str ''inf'' \<or> map to_lower body = str ''infinity''
          then Inr (Inf neg)
          else if map to_lower body = str ''nan'' then Inr NaN
          else
            (case number_part (takeWhile (\<lambda>c. c \<noteq> 101 \<and> c \<noteq> 69) body) of
               None \<Rightarrow> Inl ValueError
             | Some (a, b) \<Rightarrow>
                 (case exponent_part (dropWhile (\<lambda>c. c \<noteq> 101 \<and> c \<noteq> 69) body) of
                    None \<Rightarrow> Inl ValueError
                  | Some e \<Rightarrow>
                      Inr (let v = Fin (scale10 (of_nat (decimal (a @ b))) (e - int (length b)))
                           in if neg then fneg v else v))))"

text \<open>
  \<open>parse_european_number\<close> on a \<open>str\<close>. \<open>replace(x, "")\<close> for a one-character
  \<open>x\<close> removes every occurrence; \<open>lstrip("+-")\<close> removes every leading sign
  character; the \<open>except ValueError\<close> clause turns that exception into \<open>0.0\<close>.
  Code point 8364 is the euro sign.
\<close>

definition parse_european_number :: "pystr \<Rightarrow> exn + pyfloat" where
  "parse_european_number v =
     (if v = [] then Inr (Fin 0)
      else
        (let cleaned = py_strip (filter (\<lambda>c. c \<noteq> 32)
                         (filter (\<lambda>c. c \<noteq> 8364) (filter (\<lambda>c. c \<noteq> 37) v)));
             is_negative = (case cleaned of c # _ \<Rightarrow> c = 45 | [] \<Rightarrow> False);
             cleaned1 = lstrip_by (\<lambda>c. c = 43 \<or> c = 45) cleaned;
             cleaned2 = map (\<lambda>c. if c = 44 then 46 else c) (filter (\<lambda>c. c \<noteq> 46) cleaned1)
         in case py_float cleaned2 of
              Inr result \<Rightarrow> Inr (if is_negative then fneg result else result)
            | Inl e \<Rightarrow> if e = ValueError then Inr (Fin 0) else Inl e))"

text \<open>Truthiness of a decoded JSON value (\<open>not x\<close> is its negation).\<close>

fun py_truthy :: "json \<Rightarrow> bool" where
  "py_truthy JNull = False"
| "py_truthy (JBool b) = b"
| "py_truthy (JInt i) = (i \<noteq> 0)"
| "py_truthy (JFloat f) = (f \<noteq> Fin 0)"
| "py_truthy (JStr s) = (s \<noteq> [])"
| "py_truthy (JArr xs) = (xs \<noteq> [])"
| "py_truthy (JObj kvs) = (kvs \<noteq> [])"

text \<open>
  \<open>parse_european_number\<close> on whatever the payload holds under a key: a falsy value
  gives \<open>0.0\<close>, a truthy value that is not a \<open>str\<close> has no \<open>replace\<close>.
\<close>

fun parse_european_number_of :: "json \<Rightarrow> exn + pyfloat" where
  "parse_european_number_of (JStr s) = parse_european_number s"
| "parse_european_number_of v = (if \<not> py_truthy v then Inr (Fin 0) else Inl AttributeError)"

section \<open>The API client: \<open>get_portfolio_summary\<close>\<close>

text \<open>\<open>x.get(key, default)\<close>: only a dict has the method.\<close>

fun py_get :: "json \<Rightarrow> pystr \<Rightarrow> json \<Rightarrow> exn + json" where
  "py_get (JObj kvs) k d = Inr (case map_of kvs k of Some v \<Rightarrow> v | None \<Rightarrow> d)"
| "py_get _ k d = Inl AttributeError"

text \<open>\<open>x[0]\<close> on a decoded JSON value (the keys of a decoded dict are strings).\<close>

fun py_index0 :: "json \<Rightarrow> exn + json" where
  "py_index0 (JArr []) = Inl IndexError"
| "py_index0 (JArr (x # xs)) = Inr x"
| "py_index0 (JStr []) = Inl IndexError"
| "py_index0 (JStr (c # cs)) = Inr (JStr [c])"
| "py_index0 (JObj kvs) = Inl KeyError"
| "py_index0 _ = Inl TypeError"

text \<open>
  The HTTP response: its status, and what \<open>await response.json()\<close> gives (it raises
  when the body does not decode).
\<close>

record http_response =
  status :: int
  json_body :: "exn + json"

text \<open>The dict that \<open>get_portfolio_summary\<close> returns.\<close>

record summary =
  sum_market_value :: json
  sum_open_pl :: json
  sum_open_pl_perc :: json
  sum_daily_pl :: json
  sum_daily_pl_perc :: json
  sum_raw_data :: json

text \<open>
  The part of \<open>get_portfolio_summary\<close> inside \<open>try\<close>: a \<open>PortfolioError\<close> raised
  there is not caught by \<open>except (KeyError, IndexError)\<close>.
\<close>

definition summary_of :: "json \<Rightarrow> exn + summary" where
  "summary_of result =
     (case py_get result (str ''data'') (JArr []) of
        Inl e \<Rightarrow> Inl e
      | Inr data_list \<Rightarrow>
          if \<not> py_truthy data_list then Inl (PortfolioError NoData)
          else
            (case py_index0 data_list of
               Inl e \<Rightarrow> Inl e
             | Inr first \<Rightarrow>
                 (case py_get first (str ''screen_data'') (JObj []) of
                    Inl e \<Rightarrow> Inl e
                  | Inr sm \<Rightarrow>
                      if \<not> py_truthy sm then Inl (PortfolioError MissingScreenData)
                      else
                        (case sm of
                           JObj kvs \<Rightarrow>
                             Inr \<lparr>sum_market_value = get_or (map_of kvs (str ''MarketValue'')) (JStr (str ''0'')),
                                  sum_open_pl = get_or (map_of kvs (str ''OpenPL'')) (JStr (str ''0'')),
                                  sum_open_pl_perc = get_or (map_of kvs (str ''OpenPLPerc'')) (JStr (str ''0'')),
                                  sum_daily_pl = get_or (map_of kvs (str ''DailyPL'')) (JStr (str ''0'')),
                                  sum_daily_pl_perc = get_or (map_of kvs (str ''DailyPLPerc'')) (JStr (str ''0'')),
                                  sum_raw_data = sm\<rparr>
                         | _ \<Rightarrow> Inl AttributeError))))"

text \<open>
  \<open>get_portfolio_summary\<close>. The argument \<open>reply\<close> is what the network call gives:
  an exception of the transport (timeout, connection error) or a response.
\<close>

definition get_portfolio_summary :: "int \<Rightarrow> exn + http_response \<Rightarrow> exn + summary" where
  "get_portfolio_summary pid reply =
     (case reply of
        Inl e \<Rightarrow> Inl e
      | Inr response \<Rightarrow>
          if status response \<noteq> 200 then Inl (PortfolioError (HttpError (status response)))
          else
            (case json_body response of
               Inl e \<Rightarrow> Inl e
             | Inr result \<Rightarrow>
                 (case py_get result (str ''system'') (JObj []) of
                    Inl e \<Rightarrow> Inl e
                  | Inr system \<Rightarrow>
                      (case py_get system (str ''status'') JNull of
                         Inl e \<Rightarrow> Inl e
                       | Inr st \<Rightarrow>
                           if st = JStr (str ''failed'') then
                             (case py_get system (str ''message_error_code'') (JStr (str ''unknown'')) of
                                Inl e \<Rightarrow> Inl e
                              | Inr error_code \<Rightarrow>
                                  if error_code = JStr (str ''1001'') then Inl TokenExpiredError
                                  else if error_code = JStr (str ''203'')
                                  then Inl (PortfolioNotFoundError pid)
                                  else Inl (PortfolioError (ApiError error_code)))
                           else
                             (case summary_of result of
                                Inl e \<Rightarrow>
                                  if e = KeyError then Inl (PortfolioError ParseKeyError)
                                  else if e = IndexError then Inl (PortfolioError ParseIndexError)
                                  else Inl e
                              | Inr sm \<Rightarrow> Inr sm)))))"

section \<open>The polling coordinator\<close>

text \<open>
  What a coordinator method raises: \<open>UpdateFailed\<close> with its message, or an exception
  that no handler of the method catches. The messages are kept by their kind and the
  values formatted into them.
\<close>

datatype fail_msg =
    WaitingForScheduledUpdate
  | TokenExpiredMsg pystr exn
  | InvalidPortfolioMsg pystr exn
  | ApiErrorMsg pystr exn
  | UnexpectedErrorMsg pystr exn
  | ParsingErrorMsg exn

datatype failure = UpdateFailed fail_msg | Raised exn

text \<open>
  What a method does to the outside, in order: the network call of
  \<open>get_portfolio_summary\<close> (portfolio id, token, device id), the persistent
  notification of \<open>_notify_error\<close> (portfolio name and message), and
  \<open>async_set_updated_data\<close>, which hands the data to the listeners.
\<close>

datatype event =
    NetworkCall int pystr pystr
  | Notify pystr fail_msg
  | Publish "snapshot option"

text \<open>
  The \<open>parsed_data\<close> dict of \<open>_fetch_data\<close>; its entries are evaluated in order.
  \<open>stamp\<close> is \<open>datetime.now().isoformat()\<close>.
\<close>

definition parse_summary :: "pystr \<Rightarrow> pystr \<Rightarrow> summary \<Rightarrow> exn + snapshot" where
  "parse_summary name stamp sm =
     (case parse_european_number_of (sum_market_value sm) of
        Inl e \<Rightarrow> Inl e
      | Inr mv \<Rightarrow>
     (case parse_european_number_of (sum_open_pl sm) of
        Inl e \<Rightarrow> Inl e
      | Inr opl \<Rightarrow>
     (case parse_european_number_of (sum_open_pl_perc sm) of
        Inl e \<Rightarrow> Inl e
      | Inr oplp \<Rightarrow>
     (case parse_european_number_of (sum_daily_pl sm) of
        Inl e \<Rightarrow> Inl e
      | Inr dpl \<Rightarrow>
     (case parse_european_number_of (sum_daily_pl_perc sm) of
        Inl e \<Rightarrow> Inl e
      | Inr dplp \<Rightarrow>
          Inr \<lparr>snap_portfolio_name = name, snap_market_value = mv, snap_open_pl = opl,
               snap_open_pl_perc = oplp, snap_daily_pl = dpl, snap_daily_pl_perc = dplp,
               snap_timestamp = stamp, snap_raw_data = sum_raw_data sm\<rparr>)))))"

text \<open>
  \<open>_fetch_data\<close>. The \<open>except\<close> clauses are tried in the source's order; the last
  one, \<open>except Exception\<close>, takes whatever is left. The second \<open>try\<close> catches
  only \<open>KeyError\<close> and \<open>IndexError\<close>.
\<close>

definition fetch_data ::
  "coordinator \<Rightarrow> pystr \<Rightarrow> exn + http_response \<Rightarrow> (failure + snapshot) \<times> coordinator \<times> event list" where
  "fetch_data c stamp reply =
     (let call = NetworkCall (portfolio_id c) (x_token c) (x_udid c) in
      case get_portfolio_summary (portfolio_id c) reply of
        Inl err \<Rightarrow>
          (case err of
             TokenExpiredError \<Rightarrow>
               if \<not> error_notified c
               then (Inl (UpdateFailed (TokenExpiredMsg (portfolio_name c) err)),
                     c\<lparr>error_notified := True\<rparr>,
                     [call, Notify (portfolio_name c) (TokenExpiredMsg (portfolio_name c) err)])
               else (Inl (UpdateFailed (TokenExpiredMsg (portfolio_name c) err)), c, [call])
           | PortfolioNotFoundError p \<Rightarrow>
               (Inl (UpdateFailed (InvalidPortfolioMsg (portfolio_name c) err)), c, [call])
           | PortfolioError m \<Rightarrow>
               (Inl (UpdateFailed (ApiErrorMsg (portfolio_name c) err)), c, [call])
           | _ \<Rightarrow>
               (Inl (UpdateFailed (UnexpectedErrorMsg (portfolio_name c) err)), c, [call]))
      | Inr sm \<Rightarrow>
          (case parse_summary (portfolio_name c) stamp sm of
             Inl err \<Rightarrow>
               (if err = KeyError \<or> err = IndexError
                then Inl (UpdateFailed (ParsingErrorMsg err)) else Inl (Raised err),
                c\<lparr>error_notified := False\<rparr>, [call])
           | Inr parsed_data \<Rightarrow>
               (Inr parsed_data,
                c\<lparr>error_notified := False, last_successful_data := Some parsed_data\<rparr>,
                [call])))"

text \<open>
  \<open>_async_update_data\<close>. The method reads the clock for \<open>current_minute\<close>
  (\<open>now\<close>), then \<open>should_update_now\<close> reads it again (\<open>now_sched\<close>), before the
  two tests. An exception of \<open>should_update_now\<close> leaves the method at once.
\<close>

definition async_update_data ::
  "coordinator \<Rightarrow> datetime \<Rightarrow> datetime \<Rightarrow> pystr \<Rightarrow> exn + http_response
     \<Rightarrow> (failure + snapshot) \<times> coordinator \<times> event list" where
  "async_update_data c now now_sched stamp reply =
     (let current_minute = hour now * 60 + minute now in
      case should_update_now c now_sched of
        Inl e \<Rightarrow> (Inl (Raised e), c, [])
      | Inr (should_update, _) \<Rightarrow>
          if current_minute = last_update_minute c then
            (case last_successful_data c of
               Some d \<Rightarrow> (Inr d, c, [])
             | None \<Rightarrow> (Inl (UpdateFailed WaitingForScheduledUpdate), c, []))
          else
            (case (if should_update then None else last_successful_data c) of
               Some d \<Rightarrow> (Inr d, c, [])
             | None \<Rightarrow> fetch_data (c\<lparr>last_update_minute := current_minute\<rparr>) stamp reply))"

text \<open>
  \<open>async_force_refresh\<close>: an exception of \<open>_fetch_data\<close> leaves the method before
  \<open>async_set_updated_data\<close>.
\<close>

definition async_force_refresh ::
  "coordinator \<Rightarrow> pystr \<Rightarrow> exn + http_response \<Rightarrow> (failure + unit) \<times> coordinator \<times> event list" where
  "async_force_refresh c stamp reply =
     (case fetch_data (c\<lparr>last_update_minute := - 1\<rparr>) stamp reply of
        (Inl f, c', ev) \<Rightarrow> (Inl f, c', ev)
      | (Inr d, c', ev) \<Rightarrow> (Inr (), c', ev @ [Publish (last_successful_data c')]))"

text \<open>
  Consecutive fetch cycles of one coordinator, one (time stamp, network reply) pair
  each: the outcome and the events of every cycle, and the state after the last one.
\<close>

fun fetch_cycles ::
  "coordinator \<Rightarrow> (pystr \<times> (exn + http_response)) list
     \<Rightarrow> ((failure + snapshot) \<times> event list) list \<times> coordinator" where
  "fetch_cycles c [] = ([], c)"
| "fetch_cycles c ((stamp, reply) # rs) =
     (case fetch_data c stamp reply of
        (r, c', ev) \<Rightarrow>
          (case fetch_cycles c' rs of (outs, c'') \<Rightarrow> ((r, ev) # outs, c'')))"

section \<open>Notions used to state the properties\<close>

text \<open>A non-empty run of ASCII digits, and the number it denotes.\<close>

definition digits :: "pystr \<Rightarrow> bool" where
  "digits s \<longleftrightarrow> s \<noteq> [] \<and> list_all is_digit s"

definition digits_value :: "pystr \<Rightarrow> int" where
  "digits_value s = int (decimal (map (\<lambda>c. c - 48) s))"

text \<open>
  A component is non-numeric when it holds a character that no integer numeral can
  hold: neither a digit, an underscore, a sign nor whitespace.
\<close>

definition int_char :: "nat \<Rightarrow> bool" where
  "int_char c \<longleftrightarrow> is_digit c \<or> c = 95 \<or> c = 43 \<or> c = 45 \<or> py_isspace c"

definition non_numeric :: "pystr \<Rightarrow> bool" where
  "non_numeric p \<longleftrightarrow> list_ex (\<lambda>c. \<not> int_char c) p"

text \<open>The class of a cycle, read off the reply that its network call gets.\<close>

definition token_expired :: "int \<Rightarrow> exn + http_response \<Rightarrow> bool" where
  "token_expired pid reply \<longleftrightarrow> get_portfolio_summary pid reply = Inl TokenExpiredError"

definition api_success :: "int \<Rightarrow> exn + http_response \<Rightarrow> bool" where
  "api_success pid reply \<longleftrightarrow>
     (case get_portfolio_summary pid reply of Inr sm \<Rightarrow> True | Inl e \<Rightarrow> False)"

definition notifications :: "event list \<Rightarrow> nat" where
  "notifications ev = length (filter (\<lambda>e. case e of Notify n m \<Rightarrow> True | _ \<Rightarrow> False) ev)"

definition network_calls :: "event list \<Rightarrow> nat" where
  "network_calls ev = length (filter (\<lambda>e. case e of NetworkCall p t u \<Rightarrow> True | _ \<Rightarrow> False) ev)"

text \<open>
  The text that \<open>parse_european_number\<close> hands to \<open>float()\<close>, and the sign it
  has noted before: the value of \<open>cleaned\<close> after the first and after the last
  assignment, and \<open>is_negative\<close>.
\<close>

definition european_stripped :: "pystr \<Rightarrow> pystr" where
  "european_stripped v =
     py_strip (filter (\<lambda>c. c \<noteq> 32) (filter (\<lambda>c. c \<noteq> 8364) (filter (\<lambda>c. c \<noteq> 37) v)))"

definition european_negative :: "pystr \<Rightarrow> bool" where
  "european_negative v = (case european_stripped v of c # _ \<Rightarrow> c = 45 | [] \<Rightarrow> False)"

definition european_text :: "pystr \<Rightarrow> pystr" where
  "european_text v =
     map (\<lambda>c. if c = 44 then 46 else c)
       (filter (\<lambda>c. c \<noteq> 46) (lstrip_by (\<lambda>c. c = 43 \<or> c = 45) (european_stripped v)))"

section \<open>Properties of the time parser and the schedule\<close>

lemma py_split_nonempty: "py_split sep s \<noteq> []"
  by (induction s) (auto split: list.splits)

lemma py_split_no_sep: "sep \<notin> set s \<Longrightarrow> py_split sep s = [s]"
  by (induction s) auto

lemma py_split_append: "sep \<notin> set h \<Longrightarrow> py_split sep (h @ sep # r) = h # py_split sep r"
  by (induction h) auto

lemma digit_not_space: "is_digit c \<Longrightarrow> \<not> py_isspace c"
  by (auto simp: is_digit_def py_isspace_def)

lemma digits_after_digits:
  "list_all is_digit ds \<Longrightarrow> digits_after ds = Some (map (\<lambda>c. c - 48) ds)"
  by (induction ds rule: digits_after.induct) auto

lemma digitpart_digits: "digits ds \<Longrightarrow> digitpart ds = Some (map (\<lambda>c. c - 48) ds)"
  by (cases ds) (auto simp: digits_def digits_after_digits)

lemma py_strip_digits:
  assumes d: "digits ds"
  shows "py_strip ds = ds"
proof -
  from d obtain c cs where ds: "ds = c # cs" and c: "is_digit c"
    by (cases ds) (auto simp: digits_def)
  have l: "is_digit (last ds)"
    using d by (metis digits_def last_in_set list_all_iff)
  have "dropWhile py_isspace ds = ds"
    using ds c digit_not_space by simp
  moreover have "dropWhile py_isspace (rev ds) = rev ds"
    using l d digit_not_space[of "last ds"]
    by (metis digits_def dropWhile_eq_self_iff hd_rev rev_is_Nil_conv)
  ultimately show ?thesis
    by (simp add: py_strip_def lstrip_by_def rstrip_by_def)
qed

lemma py_int_digits:
  assumes d: "digits ds"
  shows "py_int ds = Inr (digits_value ds)"
proof -
  from d obtain c cs where ds: "ds = c # cs" and c: "is_digit c"
    by (cases ds) (auto simp: digits_def)
  from c have ns: "c \<noteq> 43" "c \<noteq> 45"
    by (auto simp: is_digit_def)
  have st: "py_strip ds = c # cs"
    using py_strip_digits[OF d] ds by simp
  have dp: "digitpart (c # cs) = Some (map (\<lambda>c. c - 48) ds)"
    using digitpart_digits[OF d] ds by simp
  show ?thesis
    unfolding py_int_def st Let_def using ns dp
    by (simp add: digits_value_def del: digitpart.simps)
qed

lemma digits_no_colon: "digits m \<Longrightarrow> 58 \<notin> set m"
  by (auto simp: digits_def list_all_iff is_digit_def)

lemma parse_time_hhmm:
  "digits h \<Longrightarrow> digits m \<Longrightarrow> parse_time (h @ 58 # m) = Inr (digits_value h, digits_value m)"
  by (simp add: parse_time_def py_split_append digits_no_colon py_split_no_sep py_int_digits)

lemma digits_after_chars:
  "digits_after s = Some ds \<Longrightarrow> list_all (\<lambda>c. is_digit c \<or> c = 95) s"
  by (induction s arbitrary: ds rule: digits_after.induct) (auto split: if_splits)

lemma digitpart_chars: "digitpart s = Some ds \<Longrightarrow> list_all (\<lambda>c. is_digit c \<or> c = 95) s"
  by (cases s) (auto split: if_splits dest: digits_after_chars)

lemma strip_chars:
  assumes a: "list_all int_char (py_strip s)"
  shows "list_all int_char s"
proof -
  let ?l = "dropWhile py_isspace s"
  have s: "s = takeWhile py_isspace s @ ?l"
    by simp
  have l: "?l = rev (takeWhile py_isspace (rev ?l) @ dropWhile py_isspace (rev ?l))"
    by simp
  have t1: "list_all int_char (takeWhile py_isspace s)"
    by (metis (mono_tags, lifting) int_char_def list_all_iff set_takeWhileD)
  have t2: "list_all int_char (takeWhile py_isspace (rev ?l))"
    by (metis (mono_tags, lifting) int_char_def list_all_iff set_takeWhileD)
  have "list_all int_char (dropWhile py_isspace (rev ?l))"
    using a by (simp add: py_strip_def lstrip_by_def rstrip_by_def list_all_iff)
  with t2 have "list_all int_char ?l"
    by (subst l) (auto simp add: list_all_iff simp del: takeWhile_dropWhile_id)
  with t1 show ?thesis
    by (subst s) (simp del: takeWhile_dropWhile_id)
qed

lemma py_int_chars:
  assumes a: "py_int s = Inr v"
  shows "list_all int_char s"
proof -
  let ?t = "py_strip s"
  let ?b = "(case ?t of c # cs \<Rightarrow> if c = 43 \<or> c = 45 then cs else ?t | [] \<Rightarrow> ?t)"
  from a obtain ds where "digitpart ?b = Some ds"
    by (auto simp: py_int_def Let_def split: option.splits)
  then have "list_all (\<lambda>c. is_digit c \<or> c = 95) ?b"
    by (rule digitpart_chars)
  then have "list_all int_char ?b"
    by (auto simp: list_all_iff int_char_def)
  then have "list_all int_char ?t"
    by (cases ?t) (auto simp: int_char_def split: if_splits)
  then show ?thesis
    by (rule strip_chars)
qed

lemma py_int_non_numeric:
  assumes n: "non_numeric p"
  shows "py_int p = Inl ValueError"
proof -
  have "\<And>e. py_int p = Inl e \<Longrightarrow> e = ValueError"
    by (auto simp: py_int_def Let_def split: option.splits)
  moreover have "\<And>v. py_int p \<noteq> Inr v"
    using n py_int_chars[of p] by (auto simp: non_numeric_def list_all_iff list_ex_iff)
  ultimately show ?thesis
    by (cases "py_int p") auto
qed

lemma parse_time_no_colon: "58 \<notin> set t \<Longrightarrow> \<exists>e. parse_time t = Inl e"
  by (auto simp: parse_time_def py_split_no_sep split: sum.splits)

lemma parse_time_non_numeric:
  assumes a: "list_ex non_numeric (take 2 (py_split 58 t))"
  shows "\<exists>e. parse_time t = Inl e"
proof -
  obtain p0 rest where sp: "py_split 58 t = p0 # rest"
    using py_split_nonempty[of 58 t] by (cases "py_split 58 t") auto
  show ?thesis
  proof (cases rest)
    case Nil
    then show ?thesis
      using sp by (auto simp: parse_time_def split: sum.splits)
  next
    case (Cons p1 r)
    with a sp have "non_numeric p0 \<or> non_numeric p1"
      by (simp add: numeral_2_eq_2)
    then show ?thesis
      using sp Cons by (auto simp: parse_time_def py_int_non_numeric split: sum.splits)
  qed
qed

lemma should_update_now_parse_error:
  "parse_time (update_morning_time c) = Inl e \<or> parse_time (update_night_time c) = Inl e
   \<Longrightarrow> \<exists>e'. should_update_now c now = Inl e'"
  by (auto simp: should_update_now_def split: sum.splits)

lemma should_update_now_parsed:
  assumes "parse_time (update_morning_time c) = Inr (mh, mm)"
    and "parse_time (update_night_time c) = Inr (nh, nm)"
    and "update_weekday_interval c \<noteq> 0"
  shows "should_update_now c now =
     Inr (hour now = mh \<and> minute now = mm \<or> hour now = nh \<and> minute now = nm \<or>
          weekday now < 5 \<and> update_weekday_start c \<le> hour now \<and> hour now < update_weekday_end c
            \<and> minute now mod update_weekday_interval c = 0, 60)"
  using assms by (auto simp: should_update_now_def)

lemma digits_0400: "digits [48, 52]" "digits [48, 48]" "digits [50, 50]" "digits [48, 53]"
  by (simp_all add: digits_def is_digit_def)

lemma digits_value_0400:
  "digits_value [48, 52] = 4" "digits_value [48, 48] = 0"
  "digits_value [50, 50] = 22" "digits_value [48, 53] = 5"
  by (simp_all add: digits_value_def decimal_def)

lemma parse_time_default_morning: "parse_time DEFAULT_UPDATE_MORNING_TIME = Inr (4, 0)"
  using parse_time_hhmm[of "[48, 52]" "[48, 48]"]
  by (simp add: DEFAULT_UPDATE_MORNING_TIME_def str_def digits_0400 digits_value_0400)

lemma parse_time_default_night: "parse_time DEFAULT_UPDATE_NIGHT_TIME = Inr (22, 5)"
  using parse_time_hhmm[of "[50, 50]" "[48, 53]"]
  by (simp add: DEFAULT_UPDATE_NIGHT_TIME_def str_def digits_0400 digits_value_0400)

lemma should_update_now_default:
  "should_update_now (init_coordinator tok udid pid name no_options) now =
     Inr (hour now = 4 \<and> minute now = 0 \<or> hour now = 22 \<and> minute now = 5 \<or>
          weekday now < 5 \<and> 9 \<le> hour now \<and> hour now < 21 \<and> minute now mod 15 = 0, 60)"
  using should_update_now_parsed[of "init_coordinator tok udid pid name no_options" 4 0 22 5 now]
  by (simp add: init_coordinator_def no_options_def get_or_def parse_time_default_morning
      parse_time_default_night DEFAULT_UPDATE_WEEKDAY_INTERVAL_def
      DEFAULT_UPDATE_WEEKDAY_START_def DEFAULT_UPDATE_WEEKDAY_END_def)

text \<open>
  C4. With both configured times readable and a non-zero interval,
  \<open>should_update_now\<close> answers true exactly when the instant matches the morning
  time to the minute, or the night time to the minute, or lies on Monday to Friday
  (\<open>weekday\<close> 0 to 4, so \<open>weekday < 5\<close>) with the hour in
  \<open>[update_weekday_start, update_weekday_end)\<close> and the minute a multiple of the
  interval. With the default configuration it is true at 04:00 and at 22:05 on any day,
  true on Wednesday 10:15, false on Wednesday 10:16 and false on Saturday 10:15.
\<close>

theorem should_update_now_rules:
  "(parse_time (update_morning_time c) = Inr (mh, mm) \<longrightarrow>
    parse_time (update_night_time c) = Inr (nh, nm) \<longrightarrow>
    update_weekday_interval c \<noteq> 0 \<longrightarrow>
    should_update_now c now =
      Inr (hour now = mh \<and> minute now = mm \<or> hour now = nh \<and> minute now = nm \<or>
           weekday now < 5 \<and> update_weekday_start c \<le> hour now \<and> hour now < update_weekday_end c
             \<and> minute now mod update_weekday_interval c = 0, 60))
   \<and> (\<forall>wd. should_update_now (init_coordinator tok udid pid name no_options)
              \<lparr>weekday = wd, hour = 4, minute = 0\<rparr> = Inr (True, 60))
   \<and> (\<forall>wd. should_update_now (init_coordinator tok udid pid name no_options)
              \<lparr>weekday = wd, hour = 22, minute = 5\<rparr> = Inr (True, 60))
   \<and> update_weekday_interval (init_coordinator tok udid pid name no_options) = 15
   \<and> should_update_now (init_coordinator tok udid pid name no_options)
        \<lparr>weekday = 2, hour = 10, minute = 15\<rparr> = Inr (True, 60)
   \<and> should_update_now (init_coordinator tok udid pid name no_options)
        \<lparr>weekday = 2, hour = 10, minute = 16\<rparr> = Inr (False, 60)
   \<and> should_update_now (init_coordinator tok udid pid name no_options)
        \<lparr>weekday = 5, hour = 10, minute = 15\<rparr> = Inr (False, 60)"
proof (intro conjI impI allI)
  assume "parse_time (update_morning_time c) = Inr (mh, mm)"
    and "parse_time (update_night_time c) = Inr (nh, nm)"
    and "update_weekday_interval c \<noteq> 0"
  then show "should_update_now c now =
      Inr (hour now = mh \<and> minute now = mm \<or> hour now = nh \<and> minute now = nm \<or>
           weekday now < 5 \<and> update_weekday_start c \<le> hour now \<and> hour now < update_weekday_end c
             \<and> minute now mod update_weekday_interval c = 0, 60)"
    by (rule should_update_now_parsed)
next
  show "update_weekday_interval (init_coordinator tok udid pid name no_options) = 15"
    by (simp add: init_coordinator_def no_options_def get_or_def
        DEFAULT_UPDATE_WEEKDAY_INTERVAL_def)
qed (simp_all add: should_update_now_default)

theorem should_update_now_rules_witness:
  "parse_time (update_morning_time
       (init_coordinator [] [] 1 []
          (no_options\<lparr>opt_weekday_interval := Some 20, opt_morning_time := Some [48, 52, 58, 48, 48]\<rparr>)))
     = Inr (4, 0)
   \<and> should_update_now
       (init_coordinator [] [] 1 []
          (no_options\<lparr>opt_weekday_interval := Some 20, opt_morning_time := Some [48, 52, 58, 48, 48]\<rparr>))
       \<lparr>weekday = 0, hour = 9, minute = 40\<rparr> = Inr (True, 60)
   \<and> should_update_now
       (init_coordinator [] [] 1 []
          (no_options\<lparr>opt_weekday_interval := Some 20, opt_morning_time := Some [48, 52, 58, 48, 48]\<rparr>))
       \<lparr>weekday = 0, hour = 9, minute = 45\<rparr> = Inr (False, 60)"
proof -
  let ?c = "init_coordinator [] [] 1 []
      (no_options\<lparr>opt_weekday_interval := Some 20, opt_morning_time := Some [48, 52, 58, 48, 48]\<rparr>)"
  have m: "parse_time (update_morning_time ?c) = Inr (4, 0)"
    using parse_time_hhmm[of "[48, 52]" "[48, 48]"]
    by (simp add: init_coordinator_def no_options_def get_or_def digits_0400 digits_value_0400)
  have n: "parse_time (update_night_time ?c) = Inr (22, 5)"
    by (simp add: init_coordinator_def no_options_def get_or_def parse_time_default_night)
  have i: "update_weekday_interval ?c \<noteq> 0"
    by (simp add: init_coordinator_def no_options_def get_or_def)
  have f: "update_weekday_interval ?c = 20" "update_weekday_start ?c = 9"
    "update_weekday_end ?c = 21"
    by (simp_all add: init_coordinator_def no_options_def get_or_def
        DEFAULT_UPDATE_WEEKDAY_START_def DEFAULT_UPDATE_WEEKDAY_END_def)
  have a: "should_update_now ?c \<lparr>weekday = 0, hour = 9, minute = 40\<rparr> = Inr (True, 60)"
    using should_update_now_rules[of ?c 4 0 22 5 "\<lparr>weekday = 0, hour = 9, minute = 40\<rparr>"] m n i
    by (simp add: f)
  have b: "should_update_now ?c \<lparr>weekday = 0, hour = 9, minute = 45\<rparr> = Inr (False, 60)"
    using should_update_now_rules[of ?c 4 0 22 5 "\<lparr>weekday = 0, hour = 9, minute = 45\<rparr>"] m n i
    by (simp add: f)
  from m a b show ?thesis
    by blast
qed

text \<open>
  C8. When \<open>update_weekday_start\<close> is not below \<open>update_weekday_end\<close>, the weekday
  rule never fires: with both configured times readable, \<open>should_update_now\<close> is true
  exactly at the morning time and at the night time, and false at every other instant.
  The window is accepted as it is; nothing is raised for it, whatever the interval.
\<close>

theorem degenerate_window_never_fires:
  assumes "parse_time (update_morning_time c) = Inr (mh, mm)"
    and "parse_time (update_night_time c) = Inr (nh, nm)"
    and "update_weekday_end c \<le> update_weekday_start c"
  shows "should_update_now c now =
     Inr (hour now = mh \<and> minute now = mm \<or> hour now = nh \<and> minute now = nm, 60)"
  using assms by (auto simp: should_update_now_def)

theorem degenerate_window_never_fires_witness:
  "update_weekday_end
      (init_coordinator [] [] 1 []
         (no_options\<lparr>opt_weekday_start := Some 21, opt_weekday_end := Some 9\<rparr>))
     \<le> update_weekday_start
      (init_coordinator [] [] 1 []
         (no_options\<lparr>opt_weekday_start := Some 21, opt_weekday_end := Some 9\<rparr>))
   \<and> should_update_now
       (init_coordinator [] [] 1 []
          (no_options\<lparr>opt_weekday_start := Some 21, opt_weekday_end := Some 9\<rparr>))
       \<lparr>weekday = 2, hour = 10, minute = 15\<rparr> = Inr (False, 60)
   \<and> should_update_now
       (init_coordinator [] [] 1 []
          (no_options\<lparr>opt_weekday_start := Some 21, opt_weekday_end := Some 9\<rparr>))
       \<lparr>weekday = 2, hour = 4, minute = 0\<rparr> = Inr (True, 60)"
proof -
  let ?c = "init_coordinator [] [] 1 []
      (no_options\<lparr>opt_weekday_start := Some 21, opt_weekday_end := Some 9\<rparr>)"
  have m: "parse_time (update_morning_time ?c) = Inr (4, 0)"
    by (simp add: init_coordinator_def no_options_def get_or_def parse_time_default_morning)
  have n: "parse_time (update_night_time ?c) = Inr (22, 5)"
    by (simp add: init_coordinator_def no_options_def get_or_def parse_time_default_night)
  have w: "update_weekday_end ?c \<le> update_weekday_start ?c"
    by (simp add: init_coordinator_def no_options_def get_or_def)
  have a: "should_update_now ?c \<lparr>weekday = 2, hour = 10, minute = 15\<rparr> = Inr (False, 60)"
    using degenerate_window_never_fires[OF m n w, of "\<lparr>weekday = 2, hour = 10, minute = 15\<rparr>"]
    by simp
  have b: "should_update_now ?c \<lparr>weekday = 2, hour = 4, minute = 0\<rparr> = Inr (True, 60)"
    using degenerate_window_never_fires[OF m n w, of "\<lparr>weekday = 2, hour = 4, minute = 0\<rparr>"]
    by simp
  from w a b show ?thesis
    by blast
qed

section \<open>Properties of the fetch cycle, the tick and the forced refresh\<close>

lemma fetch_data_events:
  "fetch_data c stamp reply = (r, c', ev) \<Longrightarrow>
     ev = [NetworkCall (portfolio_id c) (x_token c) (x_udid c)] \<or>
     ev = [NetworkCall (portfolio_id c) (x_token c) (x_udid c),
           Notify (portfolio_name c) (TokenExpiredMsg (portfolio_name c) TokenExpiredError)]"
  by (auto simp: fetch_data_def Let_def split: sum.splits exn.splits if_splits)

lemma fetch_data_network_calls:
  "fetch_data c stamp reply = (r, c', ev) \<Longrightarrow> network_calls ev = 1"
  by (drule fetch_data_events) (auto simp: network_calls_def)

lemma fetch_data_snapshot:
  "fetch_data c stamp reply = (r, c', ev) \<Longrightarrow>
     last_successful_data c' = (case r of Inl f \<Rightarrow> last_successful_data c | Inr d \<Rightarrow> Some d)"
  by (auto simp: fetch_data_def Let_def split: sum.splits exn.splits if_splits)

lemma fetch_data_last_update_minute:
  "fetch_data c stamp reply = (r, c', ev) \<Longrightarrow> last_update_minute c' = last_update_minute c"
  by (auto simp: fetch_data_def Let_def split: sum.splits exn.splits if_splits)

lemma fetch_data_config:
  "fetch_data c stamp reply = (r, c', ev) \<Longrightarrow>
     portfolio_id c' = portfolio_id c \<and> portfolio_name c' = portfolio_name c \<and>
     x_token c' = x_token c \<and> x_udid c' = x_udid c"
  by (auto simp: fetch_data_def Let_def split: sum.splits exn.splits if_splits)

lemma fetch_data_success:
  "fetch_data c stamp reply = (Inr d, c', ev) \<Longrightarrow>
     \<exists>sm. get_portfolio_summary (portfolio_id c) reply = Inr sm \<and>
          parse_summary (portfolio_name c) stamp sm = Inr d"
  by (auto simp: fetch_data_def Let_def split: sum.splits exn.splits if_splits)

text \<open>
  C7. A fetch cycle that fails, with whichever error, leaves
  \<open>last_successful_data\<close> as it was; a cycle that returns a snapshot stores exactly
  that snapshot. So the stored snapshot changes only in a successful cycle. The same
  holds for a tick and for a forced refresh, which fail only as their cycle does.
\<close>

theorem failing_cycle_keeps_snapshot:
  "(fetch_data c stamp reply = (Inl f, c', ev) \<longrightarrow>
      last_successful_data c' = last_successful_data c)
   \<and> (fetch_data c stamp reply = (Inr d, c', ev) \<longrightarrow> last_successful_data c' = Some d)
   \<and> (async_update_data c now now_sched stamp reply = (Inl f, c', ev) \<longrightarrow>
      last_successful_data c' = last_successful_data c)
   \<and> (async_force_refresh c stamp reply = (Inl f, c', ev) \<longrightarrow>
      last_successful_data c' = last_successful_data c)"
proof (intro conjI impI)
  assume "fetch_data c stamp reply = (Inl f, c', ev)"
  from fetch_data_snapshot[OF this]
  show "last_successful_data c' = last_successful_data c"
    by simp
next
  assume "fetch_data c stamp reply = (Inr d, c', ev)"
  from fetch_data_snapshot[OF this]
  show "last_successful_data c' = Some d"
    by simp
next
  assume a: "async_update_data c now now_sched stamp reply = (Inl f, c', ev)"
  show "last_successful_data c' = last_successful_data c"
  proof (cases "fetch_data (c\<lparr>last_update_minute := hour now * 60 + minute now\<rparr>) stamp reply
                 = (Inl f, c', ev)")
    case True
    from fetch_data_snapshot[OF this] show ?thesis
      by simp
  next
    case False
    with a show ?thesis
      by (auto simp: async_update_data_def Let_def split: sum.splits option.splits if_splits)
  qed
next
  assume a: "async_force_refresh c stamp reply = (Inl f, c', ev)"
  then have "fetch_data (c\<lparr>last_update_minute := - 1\<rparr>) stamp reply = (Inl f, c', ev)"
    by (auto simp: async_force_refresh_def split: prod.splits sum.splits)
  from fetch_data_snapshot[OF this] show "last_successful_data c' = last_successful_data c"
    by simp
qed

text \<open>
  C1. In a tick whose minute of the day equals \<open>last_update_minute\<close> nothing is
  fetched and nobody is notified (no event at all), and the state is left as it is.
  When the schedule evaluation that precedes the test returns, the tick returns the
  cached snapshot if there is one, and otherwise fails with \<open>UpdateFailed\<close>
  "Waiting for scheduled update".
\<close>

theorem same_minute_tick_short_circuits:
  assumes "hour now * 60 + minute now = last_update_minute c"
    and "async_update_data c now now_sched stamp reply = (r, c', ev)"
  shows "ev = [] \<and> network_calls ev = 0 \<and> c' = c \<and>
     (should_update_now c now_sched = Inr s \<longrightarrow>
        r = (case last_successful_data c of
               Some d \<Rightarrow> Inr d
             | None \<Rightarrow> Inl (UpdateFailed WaitingForScheduledUpdate)))"
  using assms
  by (auto simp: async_update_data_def Let_def network_calls_def
      split: sum.splits option.splits prod.splits)

text \<open>
  C9. In a tick at a new minute for which the schedule says no: with a cached snapshot
  the tick returns it, changes nothing and makes no network call; without one it
  records the minute and runs the fetch cycle, which makes one network call.
\<close>

theorem unscheduled_tick_uses_cache_or_fetches:
  assumes "hour now * 60 + minute now \<noteq> last_update_minute c"
    and "should_update_now c now_sched = Inr (False, n)"
    and "async_update_data c now now_sched stamp reply = (r, c', ev)"
  shows "(last_successful_data c = Some d \<longrightarrow> r = Inr d \<and> c' = c \<and> ev = [])
   \<and> (last_successful_data c = None \<longrightarrow>
        (r, c', ev) = fetch_data (c\<lparr>last_update_minute := hour now * 60 + minute now\<rparr>) stamp reply
        \<and> last_update_minute c' = hour now * 60 + minute now
        \<and> network_calls ev = 1)"
proof (intro conjI impI)
  assume "last_successful_data c = Some d"
  with assms show "r = Inr d" "c' = c" "ev = []"
    by (auto simp: async_update_data_def Let_def)
next
  assume "last_successful_data c = None"
  with assms
  have f: "fetch_data (c\<lparr>last_update_minute := hour now * 60 + minute now\<rparr>) stamp reply = (r, c', ev)"
    by (auto simp: async_update_data_def Let_def)
  then show "(r, c', ev) = fetch_data (c\<lparr>last_update_minute := hour now * 60 + minute now\<rparr>) stamp reply"
    by simp
  from fetch_data_last_update_minute[OF f]
  show "last_update_minute c' = hour now * 60 + minute now"
    by simp
  from fetch_data_network_calls[OF f] show "network_calls ev = 1" .
qed

text \<open>
  C3. A forced refresh leaves \<open>last_update_minute\<close> at \<open>- 1\<close>, which no minute of
  the day equals (hours and minutes are not negative); it runs the fetch cycle on the
  state so reset, and that makes one network call whatever the schedule would say,
  also when \<open>should_update_now\<close> is false; when the cycle returns a snapshot, the
  snapshot is the new \<open>last_successful_data\<close> and is published last.
\<close>

theorem force_refresh_bypasses_schedule:
  assumes "async_force_refresh c stamp reply = (r, c', ev)"
  shows "last_update_minute c' = - 1
   \<and> (0 \<le> hour now \<and> 0 \<le> minute now \<longrightarrow> hour now * 60 + minute now \<noteq> last_update_minute c')
   \<and> network_calls ev = 1
   \<and> hd ev = NetworkCall (portfolio_id c) (x_token c) (x_udid c)
   \<and> (should_update_now c now = Inr (False, n) \<longrightarrow> network_calls ev = 1)
   \<and> (fetch_data (c\<lparr>last_update_minute := - 1\<rparr>) stamp reply = (Inr d, c'', ev') \<longrightarrow>
        r = Inr () \<and> c' = c'' \<and> last_successful_data c' = Some d
        \<and> ev = ev' @ [Publish (Some d)])"
proof -
  obtain r0 c0 ev0 where f: "fetch_data (c\<lparr>last_update_minute := - 1\<rparr>) stamp reply = (r0, c0, ev0)"
    by (cases "fetch_data (c\<lparr>last_update_minute := - 1\<rparr>) stamp reply") auto
  have c': "c' = c0"
    using assms f by (auto simp: async_force_refresh_def split: sum.splits)
  have ev: "ev = (case r0 of Inl e \<Rightarrow> ev0 | Inr x \<Rightarrow> ev0 @ [Publish (last_successful_data c0)])"
    using assms f by (auto simp: async_force_refresh_def split: sum.splits)
  have r: "r = (case r0 of Inl e \<Rightarrow> Inl e | Inr x \<Rightarrow> Inr ())"
    using assms f by (auto simp: async_force_refresh_def split: sum.splits)
  have lum: "last_update_minute c' = - 1"
    using fetch_data_last_update_minute[OF f] c' by simp
  have n1: "network_calls ev = 1"
    using fetch_data_network_calls[OF f] ev by (auto simp: network_calls_def split: sum.splits)
  have h: "hd ev = NetworkCall (portfolio_id c) (x_token c) (x_udid c)"
    using fetch_data_events[OF f] ev by (auto split: sum.splits)
  have s: "fetch_data (c\<lparr>last_update_minute := - 1\<rparr>) stamp reply = (Inr d, c'', ev') \<longrightarrow>
        r = Inr () \<and> c' = c'' \<and> last_successful_data c' = Some d \<and> ev = ev' @ [Publish (Some d)]"
    using f c' ev r fetch_data_snapshot[OF f] by auto
  have m: "0 \<le> hour now \<and> 0 \<le> minute now \<longrightarrow> hour now * 60 + minute now \<noteq> last_update_minute c'"
    using lum by auto
  from lum m n1 h s show ?thesis
    by blast
qed

section \<open>Properties of the locale number parser\<close>

lemma py_float_error: "py_float s = Inl e \<Longrightarrow> e = ValueError"
  by (auto simp: py_float_def split: prod.splits option.splits if_splits)

lemma parse_european_number_eq:
  "parse_european_number s =
     Inr (if s = [] then Fin 0
          else (case py_float (european_text s) of
                  Inl e \<Rightarrow> Fin 0
                | Inr x \<Rightarrow> if european_negative s then fneg x else x))"
  using py_float_error[of "european_text s"]
  by (auto simp: parse_european_number_def Let_def european_text_def european_negative_def
      european_stripped_def split: sum.splits)

lemma py_float_plain:
  "py_float [50, 52, 48, 57, 51, 55, 46, 57, 56] = Inr (Fin (24093798 / 100))"
  "py_float [52, 49, 46, 55, 49] = Inr (Fin (4171 / 100))"
  "py_float [49, 54, 49, 53, 46, 52, 55] = Inr (Fin (161547 / 100))"
  "py_float [48] = Inr (Fin 0)"
  by (simp_all add: py_float_def py_strip_def lstrip_by_def rstrip_by_def py_isspace_def
      split_sign_def to_lower_def str_def number_part_def exponent_part_def is_digit_def
      decimal_def scale10_def)

lemma py_float_garbage: "py_float [103, 97, 114, 98, 97, 103, 101] = Inl ValueError"
  by (simp add: py_float_def py_strip_def lstrip_by_def rstrip_by_def py_isspace_def
      split_sign_def to_lower_def str_def number_part_def is_digit_def)

lemma european_text_examples:
  "european_text (str ''240.937,98'') = [50, 52, 48, 57, 51, 55, 46, 57, 56]"
  "european_text (str ''41,71%'') = [52, 49, 46, 55, 49]"
  "european_text (str ''-1.615,47'') = [49, 54, 49, 53, 46, 52, 55]"
  "european_text (str ''garbage'') = [103, 97, 114, 98, 97, 103, 101]"
  "european_text (str ''0'') = [48]"
  by (simp_all add: european_text_def european_stripped_def str_def py_strip_def
      lstrip_by_def rstrip_by_def py_isspace_def)

lemma european_negative_examples:
  "\<not> european_negative (str ''240.937,98'')"
  "\<not> european_negative (str ''41,71%'')"
  "european_negative (str ''-1.615,47'')"
  "\<not> european_negative (str ''0'')"
  by (simp_all add: european_negative_def european_stripped_def str_def py_strip_def
      lstrip_by_def rstrip_by_def py_isspace_def)

lemma str_nonempty:
  "str ''240.937,98'' \<noteq> []" "str ''41,71%'' \<noteq> []" "str ''-1.615,47'' \<noteq> []"
  "str ''garbage'' \<noteq> []" "str ''0'' \<noteq> []" "str '''' = []"
  by (simp_all add: str_def)

lemma parse_european_number_zero: "parse_european_number (str ''0'') = Inr (Fin 0)"
  by (simp add: parse_european_number_eq str_nonempty european_text_examples
      european_negative_examples py_float_plain)

text \<open>
  C5. \<open>parse_european_number\<close> returns a number for every string. It removes
  percent signs, euro signs and spaces, strips whitespace at both ends, notes whether
  the text begins with a minus sign, removes the leading sign characters, removes every
  full stop, turns every comma into a full stop, and reads the rest as a float,
  negated when the minus sign was noted; the empty string and text that \<open>float()\<close>
  rejects give 0.0. The five examples of the specification come out as stated.
\<close>

theorem parse_european_number_never_fails:
  "(\<exists>x. parse_european_number s = Inr x)
   \<and> parse_european_number s =
       Inr (if s = [] then Fin 0
            else (case py_float (european_text s) of
                    Inl e \<Rightarrow> Fin 0
                  | Inr x \<Rightarrow> if european_negative s then fneg x else x))
   \<and> parse_european_number (str ''240.937,98'') = Inr (Fin (24093798 / 100))
   \<and> parse_european_number (str ''41,71%'') = Inr (Fin (4171 / 100))
   \<and> parse_european_number (str ''-1.615,47'') = Inr (Fin (- (161547 / 100)))
   \<and> parse_european_number (str '''') = Inr (Fin 0)
   \<and> parse_european_number (str ''garbage'') = Inr (Fin 0)"
proof (intro conjI)
  show "\<exists>x. parse_european_number s = Inr x"
    by (subst parse_european_number_eq) blast
  show "parse_european_number s =
       Inr (if s = [] then Fin 0
            else (case py_float (european_text s) of
                    Inl e \<Rightarrow> Fin 0
                  | Inr x \<Rightarrow> if european_negative s then fneg x else x))"
    by (rule parse_european_number_eq)
  show "parse_european_number (str ''240.937,98'') = Inr (Fin (24093798 / 100))"
    by (simp add: parse_european_number_eq str_nonempty european_text_examples
        european_negative_examples py_float_plain)
  show "parse_european_number (str ''41,71%'') = Inr (Fin (4171 / 100))"
    by (simp add: parse_european_number_eq str_nonempty european_text_examples
        european_negative_examples py_float_plain)
  show "parse_european_number (str ''-1.615,47'') = Inr (Fin (- (161547 / 100)))"
    by (simp add: parse_european_number_eq str_nonempty european_text_examples
        european_negative_examples py_float_plain)
  show "parse_european_number (str '''') = Inr (Fin 0)"
    by (simp add: parse_european_number_def str_def)
  show "parse_european_number (str ''garbage'') = Inr (Fin 0)"
    by (simp add: parse_european_number_eq str_nonempty european_text_examples
        py_float_garbage)
qed

end
